theory Spec2Isabelle
  imports Complex_Main "HOL-Library.AList" "HOL-Library.Log_Nat"
begin

section \<open>Python values, dictionaries and exceptions\<close>

text \<open>
  The service is written in Python. The dictionaries it receives are typed
  \<^verbatim>\<open>Dict[str, Any]\<close>: a value stored under a key may be \<^verbatim>\<open>None\<close>, a number or
  something that is not a number. A number is a Python \<^verbatim>\<open>int\<close> or \<^verbatim>\<open>float\<close>, held as the
  exact rational value it has: an \<^verbatim>\<open>int\<close> is itself, and a \<^verbatim>\<open>float\<close> is a binary64 value.
  Comparisons of numbers are exact, as they are in Python. \<open>VStr\<close> stands for every
  value that is not a number: comparing it with a number, or multiplying it by a float,
  raises \<^verbatim>\<open>TypeError\<close>.

  A dictionary is an association list in insertion order. An argument that is \<^verbatim>\<open>None\<close>
  and an argument that is the empty dictionary are both falsy, and the code tests the
  truthiness of an argument before every access to it, so both are the empty list.
\<close>

datatype val = VNone | VNum rat | VStr string

datatype error = TypeError

type_synonym dict = "(string \<times> val) list"

text \<open>\<^verbatim>\<open>d.get(k)\<close> and \<^verbatim>\<open>d.get(k, default)\<close>.\<close>

definition get :: "dict \<Rightarrow> string \<Rightarrow> val" where
  "get d k = (case map_of d k of None \<Rightarrow> VNone | Some v \<Rightarrow> v)"

definition get_default :: "dict \<Rightarrow> string \<Rightarrow> val \<Rightarrow> val" where
  "get_default d k dv = (case map_of d k of None \<Rightarrow> dv | Some v \<Rightarrow> v)"

text \<open>Truthiness of a value: \<^verbatim>\<open>None\<close>, zero and the empty string are falsy.\<close>

fun truthy :: "val \<Rightarrow> bool" where
  "truthy VNone = False"
| "truthy (VNum x) = (x \<noteq> 0)"
| "truthy (VStr s) = (s \<noteq> [])"

text \<open>A value used as an operand of a numeric comparison or of float arithmetic.\<close>

fun num_of :: "val \<Rightarrow> error + rat" where
  "num_of (VNum x) = Inr x"
| "num_of VNone = Inl TypeError"
| "num_of (VStr s) = Inl TypeError"

text \<open>Sequencing of steps that may raise: the first exception ends the computation.\<close>

fun bindE :: "error + 'a \<Rightarrow> ('a \<Rightarrow> error + 'b) \<Rightarrow> error + 'b" where
  "bindE (Inl e) f = Inl e"
| "bindE (Inr x) f = f x"

text \<open>
  Python's \<^verbatim>\<open>round\<close> of a float to an integer rounds to the nearest integer and a tie to
  the even neighbour.
\<close>

definition py_round :: "rat \<Rightarrow> int" where
  "py_round x =
     (let f = \<lfloor>x\<rfloor>; d = x - of_int f in
      if d < 1 / 2 then f
      else if 1 / 2 < d then f + 1
      else if even f then f else f + 1)"

subsection \<open>Binary64 arithmetic\<close>

text \<open>
  \<open>fl x\<close> is the binary64 value nearest to the rational \<open>x\<close>, a tie going to the even
  significand: the result of a float operation whose exact result is \<open>x\<close>, and the value
  of a float literal that is written \<open>x\<close> (the literal \<^verbatim>\<open>12.1\<close> is \<open>fl 12.1\<close>). \<open>ilog2 x\<close> is
  the exponent of the leading bit of \<open>x\<close>; below \<open>2 powi (- 1022)\<close> the spacing is that of the
  subnormal numbers. Overflow to infinity is not modelled.

  The sub-index interpolation ends in a rounding to an integer, so its last bit matters and
  each of its float operations is rounded with \<open>fl\<close>. The weather factor, the forecast
  confidence and the pollutant projections are reported as they are computed; their float
  arithmetic is taken exact.
\<close>

definition ilog2 :: "rat \<Rightarrow> int" where
  "ilog2 x =
     (case quotient_of \<bar>x\<bar> of
        (p, q) \<Rightarrow>
          (let k = bitlen p - bitlen q in if 2 powi k \<le> \<bar>x\<bar> then k else k - 1))"

definition fl :: "rat \<Rightarrow> rat" where
  "fl x =
     (if x = 0 then 0
      else
        (let e = max (ilog2 x) (- 1022);
             u = 2 powi (e - 52)
         in of_int (py_round (x / u)) * u))"

section \<open>The index calculator (\<^verbatim>\<open>AirQualityCalculator\<close>)\<close>

subsection \<open>Breakpoint tables\<close>

type_synonym breakpoint = "rat \<times> rat \<times> int \<times> int"

text \<open>
  The bounds of a bracket are the numbers that the literals of the source denote: an
  integer literal is an \<^verbatim>\<open>int\<close>, a decimal literal is the nearest binary64 value.
\<close>

definition pm25_breakpoints :: "breakpoint list" where
  "pm25_breakpoints =
     [(0, 12, 0, 50),
      (fl 12.1, fl 35.4, 51, 100),
      (fl 35.5, fl 55.4, 101, 150),
      (fl 55.5, fl 150.4, 151, 200),
      (fl 150.5, fl 250.4, 201, 300),
      (fl 250.5, fl 500.4, 301, 500)]"

definition pm10_breakpoints :: "breakpoint list" where
  "pm10_breakpoints =
     [(0, 54, 0, 50),
      (55, 154, 51, 100),
      (155, 254, 101, 150),
      (255, 354, 151, 200),
      (355, 424, 201, 300),
      (425, 604, 301, 500)]"

definition no2_breakpoints :: "breakpoint list" where
  "no2_breakpoints =
     [(0, 53, 0, 50),
      (54, 100, 51, 100),
      (101, 360, 101, 150),
      (361, 649, 151, 200),
      (650, 1249, 201, 300),
      (1250, 2049, 301, 500)]"

definition o3_breakpoints :: "breakpoint list" where
  "o3_breakpoints =
     [(0, 54, 0, 50),
      (55, 70, 51, 100),
      (71, 85, 101, 150),
      (86, 105, 151, 200),
      (106, 200, 201, 300),
      (201, 500, 301, 500)]"

definition aqi_breakpoints :: "string \<Rightarrow> breakpoint list option" where
  "aqi_breakpoints pollutant =
     (if pollutant = ''pm25'' then Some pm25_breakpoints
      else if pollutant = ''pm10'' then Some pm10_breakpoints
      else if pollutant = ''no2'' then Some no2_breakpoints
      else if pollutant = ''o3'' then Some o3_breakpoints
      else None)"

subsection \<open>Merging the two pollutant bundles\<close>

definition extract_pollutants :: "dict \<Rightarrow> dict \<Rightarrow> dict" where
  "extract_pollutants tempo_data ground_data =
     (let p0 = (if tempo_data \<noteq> [] then
                  AList.update ''hcho'' (get tempo_data ''hcho'')
                    (AList.update ''o3'' (get tempo_data ''o3'')
                      (AList.update ''no2'' (get tempo_data ''no2'') []))
                else [])
      in
      if ground_data \<noteq> [] then
        (let p1 = AList.update ''pm25'' (get ground_data ''pm25'') p0;
             p2 = AList.update ''pm10'' (get ground_data ''pm10'') p1;
             p3 = (if \<not> truthy (get p2 ''no2'')
                   then AList.update ''no2'' (get ground_data ''no2'') p2 else p2);
             p4 = (if \<not> truthy (get p3 ''o3'')
                   then AList.update ''o3'' (get ground_data ''o3'') p3 else p3)
         in p4)
      else p0)"

subsection \<open>Sub-index of one pollutant\<close>

text \<open>
  The loop over the brackets of a table: the first bracket that contains the
  concentration gives the rounded interpolation, and falling off the end of the table
  gives 500. The interpolation
  \<^verbatim>\<open>((aqi_high - aqi_low) / (c_high - c_low)) * (concentration - c_low) + aqi_low\<close>
  is float arithmetic from the division on (\<^verbatim>\<open>/\<close> is true division), and a difference of
  two floats is rounded too; on the integers of a table \<open>fl\<close> changes nothing.
\<close>

fun interpolate :: "breakpoint list \<Rightarrow> rat \<Rightarrow> int" where
  "interpolate [] concentration = 500"
| "interpolate ((c_low, c_high, aqi_low, aqi_high) # breakpoints) concentration =
     (if c_low \<le> concentration \<and> concentration \<le> c_high then
        py_round (fl (fl (fl (of_int (aqi_high - aqi_low) / fl (c_high - c_low))
                          * fl (concentration - c_low))
                      + of_int aqi_low))
      else interpolate breakpoints concentration)"

definition calculate_pollutant_aqi :: "string \<Rightarrow> rat \<Rightarrow> int" where
  "calculate_pollutant_aqi pollutant concentration =
     (case aqi_breakpoints pollutant of
        None \<Rightarrow> 3
      | Some breakpoints \<Rightarrow> interpolate breakpoints concentration)"

text \<open>
  The loop of \<^verbatim>\<open>calculate_aqi\<close> over the merged pollutants: \<^verbatim>\<open>None\<close> is skipped, a
  number is scored when it is positive, and \<^verbatim>\<open>concentration > 0\<close> raises on anything else.
\<close>

fun individual_aqis :: "dict \<Rightarrow> error + (string \<times> int) list" where
  "individual_aqis [] = Inr []"
| "individual_aqis ((pollutant, VNone) # rest) = individual_aqis rest"
| "individual_aqis ((pollutant, VStr s) # rest) = Inl TypeError"
| "individual_aqis ((pollutant, VNum concentration) # rest) =
     bindE (individual_aqis rest) (\<lambda>aqi_values.
       Inr (if 0 < concentration
            then (pollutant, calculate_pollutant_aqi pollutant concentration) # aqi_values
            else aqi_values))"

text \<open>\<^verbatim>\<open>max(aqi_values.values()) if aqi_values else 3\<close>\<close>

definition overall :: "(string \<times> int) list \<Rightarrow> int" where
  "overall aqi_values =
     (case map snd aqi_values of [] \<Rightarrow> 3 | v # vs \<Rightarrow> fold max vs v)"

subsection \<open>Weather correction, scale mapping, provenance, weather factor\<close>

definition apply_weather_corrections :: "int \<Rightarrow> dict \<Rightarrow> error + int" where
  "apply_weather_corrections aqi weather_data =
     (if weather_data = [] then Inr aqi
      else
        bindE (num_of (get_default weather_data ''wind_speed'' (VNum 5))) (\<lambda>wind_speed.
        let c1 = (if 10 < wind_speed then aqi - 10
                  else if wind_speed < 2 then aqi + 15 else aqi) in
        bindE (num_of (get_default weather_data ''temperature'' (VNum 20))) (\<lambda>temperature.
        let c2 = (if 30 < temperature then c1 + 10
                  else if temperature < 5 then c1 - 5 else c1) in
        bindE (num_of (get_default weather_data ''humidity'' (VNum 50))) (\<lambda>humidity.
        let c3 = (if 80 < humidity then c2 + 5
                  else if humidity < 30 then c2 - 5 else c2) in
        bindE (num_of (get_default weather_data ''pressure'' (VNum 1013))) (\<lambda>pressure.
        let c4 = (if pressure < 1000 then c3 + 10 else c3) in
        Inr (max 0 (min 500 c4)))))))"

definition scale_aqi_to_5 :: "int \<Rightarrow> int" where
  "scale_aqi_to_5 aqi =
     (if aqi \<le> 50 then 1
      else if aqi \<le> 100 then 2
      else if aqi \<le> 150 then 3
      else if aqi \<le> 200 then 4
      else 5)"

definition get_data_sources :: "dict \<Rightarrow> dict \<Rightarrow> val list" where
  "get_data_sources tempo_data ground_data =
     (let s1 = (if tempo_data \<noteq> [] \<and> truthy (get tempo_data ''source'')
                then [get tempo_data ''source''] else []);
          s2 = (if ground_data \<noteq> [] \<and> truthy (get ground_data ''source'')
                then s1 @ [get ground_data ''source''] else s1)
      in if s2 \<noteq> [] then s2 else [VStr ''mock_data''])"

definition calculate_weather_factor :: "dict \<Rightarrow> error + rat" where
  "calculate_weather_factor weather_data =
     (if weather_data = [] then Inr 0.5
      else
        bindE (num_of (get_default weather_data ''wind_speed'' (VNum 5))) (\<lambda>wind_speed.
        let f1 = (if 10 < wind_speed then 0.5 - 0.2
                  else if wind_speed < 2 then 0.5 + 0.2 else 0.5) in
        bindE (num_of (get_default weather_data ''temperature'' (VNum 20))) (\<lambda>temperature.
        let f2 = (if 30 < temperature then f1 + 0.1
                  else if temperature < 5 then f1 - 0.1 else f1) in
        bindE (num_of (get_default weather_data ''humidity'' (VNum 50))) (\<lambda>humidity.
        let f3 = (if 80 < humidity then f2 + 0.1
                  else if humidity < 30 then f2 - 0.1 else f2) in
        Inr (max 0 (min 1 f3))))))"

subsection \<open>The public operation\<close>

text \<open>
  The result dictionary, without its \<^verbatim>\<open>timestamp\<close> (the wall clock at the moment of the
  call, which no other field depends on).
\<close>

record aqi_result =
  aqi :: int
  no2 :: val
  o3 :: val
  pm25 :: val
  pm10 :: val
  sources :: "val list"
  individual_aqi :: "(string \<times> int) list"
  weather_factor :: rat

definition get_default_aqi :: aqi_result where
  "get_default_aqi =
     \<lparr>aqi = 3, no2 = VNone, o3 = VNone, pm25 = VNone, pm10 = VNone,
      sources = [VStr ''default''], individual_aqi = [], weather_factor = 0.5\<rparr>"

text \<open>The body of the \<^verbatim>\<open>try\<close> block: \<open>Inl\<close> when an exception escapes it.\<close>

definition calculate_aqi_try :: "dict \<Rightarrow> dict \<Rightarrow> dict \<Rightarrow> error + aqi_result" where
  "calculate_aqi_try tempo_data ground_data weather_data =
     (let pollutants = extract_pollutants tempo_data ground_data in
      bindE (individual_aqis pollutants) (\<lambda>aqi_values.
      let overall_aqi = overall aqi_values in
      bindE (apply_weather_corrections overall_aqi weather_data) (\<lambda>weather_corrected_aqi.
      let scaled_aqi = scale_aqi_to_5 weather_corrected_aqi in
      bindE (calculate_weather_factor weather_data) (\<lambda>factor.
      Inr \<lparr>aqi = scaled_aqi,
           no2 = get pollutants ''no2'',
           o3 = get pollutants ''o3'',
           pm25 = get pollutants ''pm25'',
           pm10 = get pollutants ''pm10'',
           sources = get_data_sources tempo_data ground_data,
           individual_aqi = aqi_values,
           weather_factor = factor\<rparr>))))"

text \<open>\<^verbatim>\<open>calculate_aqi\<close>: any exception of the body is answered by the default result.\<close>

definition calculate_aqi :: "dict \<Rightarrow> dict \<Rightarrow> dict \<Rightarrow> aqi_result" where
  "calculate_aqi tempo_data ground_data weather_data =
     (case calculate_aqi_try tempo_data ground_data weather_data of
        Inl e \<Rightarrow> get_default_aqi
      | Inr r \<Rightarrow> r)"

section \<open>The forecast generator (\<^verbatim>\<open>ForecastService\<close>)\<close>

subsection \<open>What the service takes from its platform\<close>

text \<open>
  The forecast code calls three things of the Python platform, and the model takes two
  of them as parameters.
  \<^item> \<open>hash\<close> is the built-in string hash of the running interpreter. CPython salts it
    with a seed chosen when the process starts (or given by \<^verbatim>\<open>PYTHONHASHSEED\<close>), so it is
    one function within a process and another function in another process.
  \<^item> \<open>clock\<close> is the wall clock: \<open>clock n\<close> is the calendar day, as a proleptic
    Gregorian ordinal (\<^verbatim>\<open>date.toordinal()\<close>), shown by the \<open>n\<close>-th reading of
    \<^verbatim>\<open>datetime.now()\<close> of a request; every function that reads the clock takes the
    number of readings made so far and returns it increased. Adding
    \<^verbatim>\<open>timedelta(days=d)\<close> adds \<open>d\<close> to the ordinal, and a \<^verbatim>\<open>date\<close> field holds the
    ordinal of the day that \<^verbatim>\<open>strftime('%Y-%m-%d')\<close> prints.
  \<^item> \<^verbatim>\<open>str\<close> of an integer is its decimal numeral.
  The latitude and longitude arguments are passed along by the source and never
  inspected; they are left out.
\<close>

fun digits :: "nat \<Rightarrow> string" where
  "digits n =
     (if n < 10 then [''0123456789'' ! n]
      else digits (n div 10) @ [''0123456789'' ! (n mod 10)])"

definition str :: "int \<Rightarrow> string" where
  "str n = (if n < 0 then CHR ''-'' # digits (nat (- n)) else digits (nat n))"

text \<open>The month (1 to 12) of the day with a given ordinal.\<close>

definition month_of_ordinal :: "int \<Rightarrow> int" where
  "month_of_ordinal n =
     (let z = n + 305;
          era = z div 146097;
          doe = z - era * 146097;
          yoe = (doe - doe div 1460 + doe div 36524 - doe div 146096) div 365;
          doy = doe - (365 * yoe + yoe div 4 - yoe div 100);
          mp = (5 * doy + 2) div 153
      in if mp < 10 then mp + 3 else mp - 9)"

subsection \<open>Baseline and synthesized weather\<close>

definition get_current_data :: "(nat \<Rightarrow> int) \<Rightarrow> nat \<Rightarrow> dict \<times> nat" where
  "get_current_data clock t =
     ([(''aqi'', VNum 3), (''no2'', VNum 25), (''o3'', VNum 60), (''pm25'', VNum 20),
       (''timestamp'', VStr (str (clock t)))], Suc t)"

definition get_weather_conditions :: "(string \<Rightarrow> int) \<Rightarrow> int \<Rightarrow> string" where
  "get_weather_conditions hash days_ahead =
     (let conditions = [''clear'', ''partly cloudy'', ''cloudy'', ''overcast'', ''rainy'']
      in conditions ! nat (hash (str days_ahead) mod 5))"

definition get_weather_forecast :: "(string \<Rightarrow> int) \<Rightarrow> int \<Rightarrow> dict" where
  "get_weather_forecast hash days_ahead =
     [(''temperature'', VNum (of_int (20 + hash (str days_ahead) mod 15 - 7))),
      (''humidity'', VNum (of_int (50 + hash (str (days_ahead + 1)) mod 30 - 15))),
      (''wind_speed'', VNum (of_int (5 + hash (str (days_ahead + 2)) mod 10 - 5))),
      (''pressure'', VNum (of_int (1013 + hash (str (days_ahead + 3)) mod 20 - 10))),
      (''conditions'', VStr (get_weather_conditions hash days_ahead))]"

subsection \<open>The terms of the projected index\<close>

definition calculate_weather_impact :: "dict \<Rightarrow> error + int" where
  "calculate_weather_impact weather_forecast =
     bindE (num_of (get_default weather_forecast ''temperature'' (VNum 20))) (\<lambda>temp.
     let i1 = (if 30 < temp then 0 + 1 else if temp < 5 then 0 - 1 else 0) in
     bindE (num_of (get_default weather_forecast ''wind_speed'' (VNum 5))) (\<lambda>wind_speed.
     let i2 = (if 10 < wind_speed then i1 - 1 else if wind_speed < 2 then i1 + 1 else i1) in
     bindE (num_of (get_default weather_forecast ''humidity'' (VNum 50))) (\<lambda>humidity.
     let i3 = (if 80 < humidity then i2 + 1 else if humidity < 30 then i2 - 1 else i2) in
     Inr (max (- 2) (min 2 i3)))))"

definition calculate_seasonal_factor :: "(nat \<Rightarrow> int) \<Rightarrow> nat \<Rightarrow> int \<Rightarrow> int \<times> nat" where
  "calculate_seasonal_factor clock t days_ahead =
     (let month = month_of_ordinal (clock t + days_ahead) in
      (if List.member [6, 7, 8] month then 1
       else if List.member [12, 1, 2] month then 1
       else - 1,
       Suc t))"

text \<open>The local \<^verbatim>\<open>random_variation\<close> of \<^verbatim>\<open>_calculate_forecast_aqi\<close>.\<close>

definition random_variation :: "(string \<Rightarrow> int) \<Rightarrow> int \<Rightarrow> int" where
  "random_variation hash days_ahead = hash (str days_ahead) mod 3 - 1"

definition calculate_forecast_aqi ::
  "(string \<Rightarrow> int) \<Rightarrow> (nat \<Rightarrow> int) \<Rightarrow> nat \<Rightarrow> dict \<Rightarrow> dict \<Rightarrow> int \<Rightarrow> (error + rat) \<times> nat" where
  "calculate_forecast_aqi hash clock t current_data weather_forecast days_ahead =
     (let base_aqi = get_default current_data ''aqi'' (VNum 3) in
      case calculate_weather_impact weather_forecast of
        Inl e \<Rightarrow> (Inl e, t)
      | Inr weather_impact \<Rightarrow>
          (case calculate_seasonal_factor clock t days_ahead of
             (seasonal_factor, t1) \<Rightarrow>
               (bindE (num_of base_aqi) (\<lambda>b.
                  let forecast_aqi = b + of_int weather_impact + of_int seasonal_factor
                                       + of_int (random_variation hash days_ahead)
                  in Inr (max 1 (min 5 forecast_aqi))),
                t1)))"

subsection \<open>Pollutant projections, confidence and trend\<close>

definition generate_pollutant_forecasts :: "dict \<Rightarrow> dict \<Rightarrow> int \<Rightarrow> error + (string \<times> rat) list" where
  "generate_pollutant_forecasts current_data weather_forecast days_ahead =
     (let base_no2 = get_default current_data ''no2'' (VNum 25);
          base_o3 = get_default current_data ''o3'' (VNum 60);
          base_pm25 = get_default current_data ''pm25'' (VNum 20)
      in
      bindE (num_of (get_default weather_forecast ''temperature'' (VNum 20))) (\<lambda>temperature.
      let temp_factor = temperature / 20 in
      bindE (num_of (get_default weather_forecast ''wind_speed'' (VNum 5))) (\<lambda>wind_speed.
      let wind_factor = wind_speed / 5 in
      bindE (num_of (get_default weather_forecast ''humidity'' (VNum 50))) (\<lambda>humidity.
      let humidity_factor = humidity / 50 in
      bindE (num_of base_no2) (\<lambda>b_no2.
      let f_no2 = b_no2 * (1 + (temp_factor - 1) * 0.2) * (1 - (wind_factor - 1) * 0.1) in
      bindE (num_of base_o3) (\<lambda>b_o3.
      let f_o3 = b_o3 * (1 + (temp_factor - 1) * 0.3) * (1 + (humidity_factor - 1) * 0.1) in
      bindE (num_of base_pm25) (\<lambda>b_pm25.
      let f_pm25 = b_pm25 * (1 - (wind_factor - 1) * 0.2) * (1 + (humidity_factor - 1) * 0.1) in
      Inr [(''no2'', f_no2), (''o3'', f_o3), (''pm25'', f_pm25)])))))))"

definition calculate_confidence :: "int \<Rightarrow> rat" where
  "calculate_confidence days_ahead =
     (let base_confidence = 0.9;
          decay_rate = 0.1;
          c = base_confidence - of_int (days_ahead - 1) * decay_rate
      in max 0.3 (min 1.0 c))"

definition calculate_trend :: "dict \<Rightarrow> rat \<Rightarrow> error + string" where
  "calculate_trend current_data forecast_aqi =
     bindE (num_of (get_default current_data ''aqi'' (VNum 3))) (\<lambda>current_aqi.
       Inr (if current_aqi + 0.5 < forecast_aqi then ''worsening''
            else if forecast_aqi < current_aqi - 0.5 then ''improving''
            else ''stable''))"

subsection \<open>One day, and the seven days\<close>

record day_forecast =
  date :: int
  aqi_value :: rat
  no2_level :: "rat option"
  o3_level :: "rat option"
  pm25_level :: "rat option"
  weather :: dict
  confidence :: rat
  trend :: string

definition get_default_day_forecast :: "(nat \<Rightarrow> int) \<Rightarrow> nat \<Rightarrow> int \<Rightarrow> day_forecast \<times> nat" where
  "get_default_day_forecast clock t days_ahead =
     (\<lparr>date = clock t + days_ahead,
       aqi_value = 3,
       no2_level = Some 25,
       o3_level = Some 60,
       pm25_level = Some 20,
       weather = [(''temperature'', VNum 20), (''humidity'', VNum 50),
                  (''wind_speed'', VNum 5), (''pressure'', VNum 1013),
                  (''conditions'', VStr ''partly cloudy'')],
       confidence = 0.5,
       trend = ''stable''\<rparr>, Suc t)"

text \<open>The body of the \<^verbatim>\<open>try\<close> block of \<^verbatim>\<open>_generate_day_forecast\<close>.\<close>

definition generate_day_forecast_try ::
  "(string \<Rightarrow> int) \<Rightarrow> (nat \<Rightarrow> int) \<Rightarrow> nat \<Rightarrow> int \<Rightarrow> dict \<Rightarrow> (error + day_forecast) \<times> nat" where
  "generate_day_forecast_try hash clock t days_ahead current_data =
     (let weather_forecast = get_weather_forecast hash days_ahead in
      case calculate_forecast_aqi hash clock t current_data weather_forecast days_ahead of
        (Inl e, t1) \<Rightarrow> (Inl e, t1)
      | (Inr forecast_aqi, t1) \<Rightarrow>
          (case generate_pollutant_forecasts current_data weather_forecast days_ahead of
             Inl e \<Rightarrow> (Inl e, t1)
           | Inr pollutant_forecasts \<Rightarrow>
               (let d = clock t1 + days_ahead; t2 = Suc t1 in
                case calculate_trend current_data forecast_aqi of
                  Inl e \<Rightarrow> (Inl e, t2)
                | Inr tr \<Rightarrow>
                    (Inr \<lparr>date = d,
                          aqi_value = forecast_aqi,
                          no2_level = map_of pollutant_forecasts ''no2'',
                          o3_level = map_of pollutant_forecasts ''o3'',
                          pm25_level = map_of pollutant_forecasts ''pm25'',
                          weather = weather_forecast,
                          confidence = calculate_confidence days_ahead,
                          trend = tr\<rparr>, t2))))"

definition generate_day_forecast ::
  "(string \<Rightarrow> int) \<Rightarrow> (nat \<Rightarrow> int) \<Rightarrow> nat \<Rightarrow> int \<Rightarrow> dict \<Rightarrow> day_forecast \<times> nat" where
  "generate_day_forecast hash clock t days_ahead current_data =
     (case generate_day_forecast_try hash clock t days_ahead current_data of
        (Inl e, t1) \<Rightarrow> get_default_day_forecast clock t1 days_ahead
      | (Inr r, t1) \<Rightarrow> (r, t1))"

text \<open>The loop \<^verbatim>\<open>for i in range(1, 8)\<close>, over the list of its indices.\<close>

fun forecast_loop ::
  "(string \<Rightarrow> int) \<Rightarrow> (nat \<Rightarrow> int) \<Rightarrow> nat \<Rightarrow> dict \<Rightarrow> int list \<Rightarrow> day_forecast list \<times> nat" where
  "forecast_loop hash clock t current_data [] = ([], t)"
| "forecast_loop hash clock t current_data (i # rest) =
     (case generate_day_forecast hash clock t i current_data of
        (day, t1) \<Rightarrow>
          (case forecast_loop hash clock t1 current_data rest of
             (days, t2) \<Rightarrow> (day # days, t2)))"

fun default_loop :: "(nat \<Rightarrow> int) \<Rightarrow> nat \<Rightarrow> int list \<Rightarrow> day_forecast list \<times> nat" where
  "default_loop clock t [] = ([], t)"
| "default_loop clock t (i # rest) =
     (case get_default_day_forecast clock t i of
        (day, t1) \<Rightarrow>
          (case default_loop clock t1 rest of
             (days, t2) \<Rightarrow> (day # days, t2)))"

definition get_default_forecast :: "(nat \<Rightarrow> int) \<Rightarrow> nat \<Rightarrow> day_forecast list \<times> nat" where
  "get_default_forecast clock t = default_loop clock t [1, 2, 3, 4, 5, 6, 7]"

text \<open>
  The body of the \<^verbatim>\<open>try\<close> block of \<^verbatim>\<open>generate_forecast\<close>. Every step of it answers its
  own exceptions, so it always ends in \<open>Inr\<close>; the handler is kept as the source has it.
\<close>

definition generate_forecast_try ::
  "(string \<Rightarrow> int) \<Rightarrow> (nat \<Rightarrow> int) \<Rightarrow> nat \<Rightarrow> dict \<Rightarrow> (error + day_forecast list) \<times> nat" where
  "generate_forecast_try hash clock t current_data =
     (case (if current_data = [] then get_current_data clock t else (current_data, t)) of
        (cd, t0) \<Rightarrow>
          (case forecast_loop hash clock t0 cd [1, 2, 3, 4, 5, 6, 7] of
             (forecast, t1) \<Rightarrow> (Inr forecast, t1)))"

definition generate_forecast ::
  "(string \<Rightarrow> int) \<Rightarrow> (nat \<Rightarrow> int) \<Rightarrow> nat \<Rightarrow> dict \<Rightarrow> day_forecast list \<times> nat" where
  "generate_forecast hash clock t current_data =
     (case generate_forecast_try hash clock t current_data of
        (Inl e, t1) \<Rightarrow> get_default_forecast clock t1
      | (Inr forecast, t1) \<Rightarrow> (forecast, t1))"

section \<open>Two interpreter runs and two clocks\<close>

text \<open>
  The string hash of two runs of CPython 3.11, one started with \<^verbatim>\<open>PYTHONHASHSEED=0\<close> and
  one with \<^verbatim>\<open>PYTHONHASHSEED=1\<close>, on the ten numerals the forecast code hashes (day offsets 1
  to 7, and up to 3 more for the synthesized weather). The value 0 stands for the hash
  of every other string, which the forecast code never asks for.
\<close>

definition hash_table_seed0 :: "(string \<times> int) list" where
  "hash_table_seed0 =
     [(''1'', - 6863858015672933803),
      (''2'', 1450935647650615885),
      (''3'', - 6250727467951016618),
      (''4'', 254163481768913968),
      (''5'', 5370147007902434832),
      (''6'', 6291171780175486162),
      (''7'', - 435914714773863006),
      (''8'', - 4328086266810151537),
      (''9'', 7413459454055533065),
      (''10'', 9031703819496055312)]"

definition hash_table_seed1 :: "(string \<times> int) list" where
  "hash_table_seed1 =
     [(''1'', - 3509053104883717537),
      (''2'', 5754080878075831670),
      (''3'', 5287154123826123282),
      (''4'', - 5685841832714489480),
      (''5'', - 769220621563841074),
      (''6'', - 2839963485017923235),
      (''7'', 2499365283438586333),
      (''8'', 4450953207661195759),
      (''9'', - 8995045532426795191),
      (''10'', 6721681552778699502)]"

definition hash_seed0 :: "string \<Rightarrow> int" where
  "hash_seed0 s = (case map_of hash_table_seed0 s of Some h \<Rightarrow> h | None \<Rightarrow> 0)"

definition hash_seed1 :: "string \<Rightarrow> int" where
  "hash_seed1 s = (case map_of hash_table_seed1 s of Some h \<Rightarrow> h | None \<Rightarrow> 0)"

text \<open>
  A clock that stays on 4 November 2026 (ordinal 739924), and a clock of a request that
  starts shortly before midnight of that day: its first three readings fall on 4 November
  and all later ones on 5 November.
\<close>

definition clock_same_day :: "nat \<Rightarrow> int" where
  "clock_same_day n = 739924"

definition clock_over_midnight :: "nat \<Rightarrow> int" where
  "clock_over_midnight n = (if n < 3 then 739924 else 739925)"

section \<open>Properties of the index calculator\<close>

subsection \<open>Auxiliary facts\<close>

lemma bindE_Inr_iff: "bindE m f = Inr r \<longleftrightarrow> (\<exists>x. m = Inr x \<and> f x = Inr r)"
  by (cases m) simp_all


lemma get_Nil: "get [] k = VNone"
  by (simp add: get_def)

lemma get_Cons: "get ((k, v) # d) k' = (if k' = k then v else get d k')"
  by (simp add: get_def)



lemma scale_aqi_to_5_range: "scale_aqi_to_5 x \<in> {1, 2, 3, 4, 5}"
  by (simp add: scale_aqi_to_5_def)

lemma calculate_aqi_try_scaled:
  "calculate_aqi_try t g w = Inr r \<Longrightarrow> \<exists>x. aqi r = scale_aqi_to_5 x"
  by (auto simp: calculate_aqi_try_def Let_def bindE_Inr_iff)

subsection \<open>The scaled index\<close>

text \<open>
  C4. For every pair of pollutant bundles and every weather dictionary, also empty ones
  and ones with values that are not numbers, the \<^verbatim>\<open>aqi\<close> field of the result of
  \<^verbatim>\<open>calculate_aqi\<close> is one of 1, 2, 3, 4, 5: on the computed path it is a value of
  \<^verbatim>\<open>_scale_aqi_to_5\<close>, and on the default path it is 3.
\<close>

theorem calculate_aqi_scaled_index_range:
  "aqi (calculate_aqi tempo_data ground_data weather_data) \<in> {1, 2, 3, 4, 5}
   \<and> aqi get_default_aqi = 3"
proof (cases "calculate_aqi_try tempo_data ground_data weather_data")
  case (Inl e)
  then show ?thesis by (simp add: calculate_aqi_def get_default_aqi_def)
next
  case (Inr r)
  then obtain x where "aqi r = scale_aqi_to_5 x"
    using calculate_aqi_try_scaled by blast
  with Inr show ?thesis
    using scale_aqi_to_5_range [of x] by (simp add: calculate_aqi_def get_default_aqi_def)
qed




subsection \<open>Weather correction and wind speed\<close>




subsection \<open>The merge policy\<close>

lemma extract_empty_empty: "extract_pollutants [] [] = []"
  by (simp add: extract_pollutants_def)

lemma extract_tempo_only:
  "t \<noteq> [] \<Longrightarrow> extract_pollutants t [] =
     [(''no2'', get t ''no2''), (''o3'', get t ''o3''), (''hcho'', get t ''hcho'')]"
  by (simp add: extract_pollutants_def)

lemma extract_ground_only:
  "g \<noteq> [] \<Longrightarrow> extract_pollutants [] g =
     [(''pm25'', get g ''pm25''), (''pm10'', get g ''pm10''), (''no2'', get g ''no2''),
      (''o3'', get g ''o3'')]"
  by (simp add: extract_pollutants_def Let_def get_Cons get_Nil)

lemma extract_both:
  "t \<noteq> [] \<Longrightarrow> g \<noteq> [] \<Longrightarrow> extract_pollutants t g =
     [(''no2'', if truthy (get t ''no2'') then get t ''no2'' else get g ''no2''),
      (''o3'', if truthy (get t ''o3'') then get t ''o3'' else get g ''o3''),
      (''hcho'', get t ''hcho''),
      (''pm25'', get g ''pm25''), (''pm10'', get g ''pm10'')]"
  by (simp add: extract_pollutants_def Let_def get_Cons get_Nil)

lemma merged_no2:
  "get (extract_pollutants t g) ''no2'' =
     (if truthy (get t ''no2'') then get t ''no2''
      else if g \<noteq> [] then get g ''no2'' else get t ''no2'')"
proof (cases "t = []"; cases "g = []")
  assume "t = []" "g = []"
  then show ?thesis by (simp add: extract_empty_empty get_Nil)
next
  assume "t = []" "g \<noteq> []"
  then show ?thesis by (simp add: extract_ground_only get_Cons get_Nil)
next
  assume "t \<noteq> []" "g = []"
  then show ?thesis by (simp add: extract_tempo_only get_Cons get_Nil)
next
  assume "t \<noteq> []" "g \<noteq> []"
  then show ?thesis by (simp add: extract_both get_Cons get_Nil)
qed

lemma merged_o3:
  "get (extract_pollutants t g) ''o3'' =
     (if truthy (get t ''o3'') then get t ''o3''
      else if g \<noteq> [] then get g ''o3'' else get t ''o3'')"
proof (cases "t = []"; cases "g = []")
  assume "t = []" "g = []"
  then show ?thesis by (simp add: extract_empty_empty get_Nil)
next
  assume "t = []" "g \<noteq> []"
  then show ?thesis by (simp add: extract_ground_only get_Cons get_Nil)
next
  assume "t \<noteq> []" "g = []"
  then show ?thesis by (simp add: extract_tempo_only get_Cons get_Nil)
next
  assume "t \<noteq> []" "g \<noteq> []"
  then show ?thesis by (simp add: extract_both get_Cons get_Nil)
qed

lemma merged_ground_only:
  "get (extract_pollutants t g) ''pm25'' = get g ''pm25''"
  "get (extract_pollutants t g) ''pm10'' = get g ''pm10''"
proof -
  have "get (extract_pollutants t g) ''pm25'' = get g ''pm25''
      \<and> get (extract_pollutants t g) ''pm10'' = get g ''pm10''"
  proof (cases "t = []"; cases "g = []")
    assume "t = []" "g = []"
    then show ?thesis by (simp add: extract_empty_empty get_Nil)
  next
    assume "t = []" "g \<noteq> []"
    then show ?thesis by (simp add: extract_ground_only get_Cons get_Nil)
  next
    assume "t \<noteq> []" "g = []"
    then show ?thesis by (simp add: extract_tempo_only get_Cons get_Nil)
  next
    assume "t \<noteq> []" "g \<noteq> []"
    then show ?thesis by (simp add: extract_both get_Cons get_Nil)
  qed
  then show "get (extract_pollutants t g) ''pm25'' = get g ''pm25''"
    and "get (extract_pollutants t g) ''pm10'' = get g ''pm10''" by simp_all
qed

lemma merged_hcho:
  "get (extract_pollutants t g) ''hcho'' = get t ''hcho''"
proof (cases "t = []"; cases "g = []")
  assume "t = []" "g = []"
  then show ?thesis by (simp add: extract_empty_empty get_Nil)
next
  assume "t = []" "g \<noteq> []"
  then show ?thesis by (simp add: extract_ground_only get_Cons get_Nil)
next
  assume "t \<noteq> []" "g = []"
  then show ?thesis by (simp add: extract_tempo_only get_Cons get_Nil)
next
  assume "t \<noteq> []" "g \<noteq> []"
  then show ?thesis by (simp add: extract_both get_Cons get_Nil)
qed

text \<open>
  C7 (as the code has it). The merged NO2 and O3 values are the TEMPO value when it is
  truthy; otherwise the ground value when the ground bundle is not empty; and otherwise
  (ground bundle empty or \<^verbatim>\<open>None\<close>) the TEMPO bundle's own falsy value, which is kept.
  The merged PM2.5 and PM10 are the ground bundle's, and the merged HCHO is the TEMPO
  bundle's.
\<close>

theorem extract_pollutants_merge_policy:
  "get (extract_pollutants tempo_data ground_data) ''no2'' =
     (if truthy (get tempo_data ''no2'') then get tempo_data ''no2''
      else if ground_data \<noteq> [] then get ground_data ''no2''
      else get tempo_data ''no2'')
   \<and> get (extract_pollutants tempo_data ground_data) ''o3'' =
     (if truthy (get tempo_data ''o3'') then get tempo_data ''o3''
      else if ground_data \<noteq> [] then get ground_data ''o3''
      else get tempo_data ''o3'')
   \<and> get (extract_pollutants tempo_data ground_data) ''pm25'' = get ground_data ''pm25''
   \<and> get (extract_pollutants tempo_data ground_data) ''pm10'' = get ground_data ''pm10''
   \<and> get (extract_pollutants tempo_data ground_data) ''hcho'' = get tempo_data ''hcho''"
  by (simp only: merged_no2 merged_o3 merged_ground_only merged_hcho simp_thms)

text \<open>
  The TEMPO bundle reports NO2 as 0 and there is no ground bundle: the ground value is
  absent, and the merged value is 0.
\<close>

theorem extract_pollutants_keeps_falsy_tempo_value:
  "\<not> truthy (get [(''no2'', VNum 0)] ''no2'')
   \<and> get (extract_pollutants [(''no2'', VNum 0)] []) ''no2'' = VNum 0
   \<and> get [] ''no2'' = VNone"
  by (simp add: extract_pollutants_def get_def)


subsection \<open>All pollutants absent\<close>

lemma pollutants_all_absent:
  assumes "get t ''no2'' = VNone" and "get t ''o3'' = VNone" and "get t ''hcho'' = VNone"
    and "get g ''pm25'' = VNone" and "get g ''pm10'' = VNone"
    and "get g ''no2'' = VNone" and "get g ''o3'' = VNone"
  shows "individual_aqis (extract_pollutants t g) = Inr []"
proof (cases "t = []"; cases "g = []")
  assume "t = []" "g = []"
  then show ?thesis by (simp add: extract_empty_empty)
next
  assume "t = []" "g \<noteq> []"
  then show ?thesis using assms by (simp add: extract_ground_only)
next
  assume "t \<noteq> []" "g = []"
  then show ?thesis using assms by (simp add: extract_tempo_only)
next
  assume "t \<noteq> []" "g \<noteq> []"
  then show ?thesis using assms by (simp add: extract_both)
qed

text \<open>
  C1 (as the code has it). When every pollutant is absent from both bundles and there is
  no weather, \<^verbatim>\<open>calculate_aqi\<close> raises nothing and answers on its computed path: there
  are no sub-indices, the overall EPA index falls back to 3, which the scale mapping sends
  to the scaled index 1, the weather factor is 0.5, and the sources are those of
  \<^verbatim>\<open>_get_data_sources\<close> (\<^verbatim>\<open>['mock_data']\<close> when no bundle names a source).
\<close>

theorem calculate_aqi_all_absent:
  assumes "get tempo_data ''no2'' = VNone" and "get tempo_data ''o3'' = VNone"
    and "get tempo_data ''hcho'' = VNone"
    and "get ground_data ''pm25'' = VNone" and "get ground_data ''pm10'' = VNone"
    and "get ground_data ''no2'' = VNone" and "get ground_data ''o3'' = VNone"
  shows "calculate_aqi_try tempo_data ground_data [] =
           Inr \<lparr>aqi = 1, no2 = VNone, o3 = VNone, pm25 = VNone, pm10 = VNone,
                sources = get_data_sources tempo_data ground_data,
                individual_aqi = [], weather_factor = 0.5\<rparr>
       \<and> calculate_aqi tempo_data ground_data [] =
           \<lparr>aqi = 1, no2 = VNone, o3 = VNone, pm25 = VNone, pm10 = VNone,
            sources = get_data_sources tempo_data ground_data,
            individual_aqi = [], weather_factor = 0.5\<rparr>"
proof -
  have ind: "individual_aqis (extract_pollutants tempo_data ground_data) = Inr []"
    using assms by (rule pollutants_all_absent)
  have body: "calculate_aqi_try tempo_data ground_data [] =
           Inr \<lparr>aqi = 1, no2 = VNone, o3 = VNone, pm25 = VNone, pm10 = VNone,
                sources = get_data_sources tempo_data ground_data,
                individual_aqi = [], weather_factor = 0.5\<rparr>"
    using assms
    by (simp add: calculate_aqi_try_def Let_def ind overall_def apply_weather_corrections_def
        scale_aqi_to_5_def calculate_weather_factor_def merged_no2 merged_o3 merged_ground_only)
  then show ?thesis
    by (simp add: calculate_aqi_def)
qed

theorem calculate_aqi_all_absent_witness:
  "get [] ''no2'' = VNone \<and> get [] ''pm25'' = VNone
   \<and> calculate_aqi_try [] [] [] =
         Inr \<lparr>aqi = 1, no2 = VNone, o3 = VNone, pm25 = VNone, pm10 = VNone,
              sources = [VStr ''mock_data''], individual_aqi = [], weather_factor = 0.5\<rparr>"
  using calculate_aqi_all_absent [of "[]" "[]"]
  by (simp add: get_Nil get_data_sources_def)

text \<open>
  With two empty bundles and no weather the body of the \<^verbatim>\<open>try\<close> block returns, the
  result is not the default result, its scaled index is 1 and its sources are
  \<^verbatim>\<open>['mock_data']\<close>.
\<close>

theorem calculate_aqi_empty_input_not_default:
  "calculate_aqi_try [] [] [] \<noteq> Inl TypeError
   \<and> calculate_aqi [] [] [] \<noteq> get_default_aqi
   \<and> aqi (calculate_aqi [] [] []) = 1
   \<and> sources (calculate_aqi [] [] []) = [VStr ''mock_data'']"
  by (simp add: calculate_aqi_def calculate_aqi_try_def extract_pollutants_def overall_def
      apply_weather_corrections_def scale_aqi_to_5_def calculate_weather_factor_def
      get_data_sources_def get_def get_default_aqi_def)

subsection \<open>Binary64 rounding of given numbers\<close>

lemma pow2_exponent_unique:
  fixes y :: rat
  assumes "2 powi e \<le> y" and "y < 2 powi (e + 1)"
    and "2 powi e' \<le> y" and "y < 2 powi (e' + 1)"
  shows "e = e'"
proof -
  have "e < e' + 1"
  proof (rule ccontr)
    assume "\<not> e < e' + 1"
    then have "(2::rat) powi (e' + 1) \<le> 2 powi e"
      by (intro power_int_increasing) simp_all
    with assms(1,4) show False by simp
  qed
  moreover have "e' < e + 1"
  proof (rule ccontr)
    assume "\<not> e' < e + 1"
    then have "(2::rat) powi (e + 1) \<le> 2 powi e'"
      by (intro power_int_increasing) simp_all
    with assms(2,3) show False by simp
  qed
  ultimately show ?thesis by simp
qed

lemma bitlen_powi_bounds:
  assumes "0 < p"
  shows "(2::rat) powi (bitlen p - 1) \<le> of_int p" and "of_int p < (2::rat) powi (bitlen p)"
proof -
  from assms have b1: "1 \<le> bitlen p" by (auto simp: bitlen_alt_def)
  from bitlen_bounds [OF assms]
  have lo: "2 ^ nat (bitlen p - 1) \<le> p" and hi: "p < 2 ^ nat (bitlen p)" by simp_all
  have "(of_int (2 ^ nat (bitlen p - 1)) :: rat) \<le> of_int p"
    using lo by (simp only: of_int_le_iff)
  then show "(2::rat) powi (bitlen p - 1) \<le> of_int p"
    using b1 by (simp add: power_int_def)
  have "(of_int p :: rat) < of_int (2 ^ nat (bitlen p))"
    using hi by (simp only: of_int_less_iff)
  then show "of_int p < (2::rat) powi (bitlen p)"
    using b1 by (simp add: power_int_def)
qed

lemma ilog2_bounds:
  assumes "x \<noteq> 0"
  shows "2 powi (ilog2 x) \<le> \<bar>x\<bar> \<and> \<bar>x\<bar> < 2 powi (ilog2 x + 1)"
proof -
  obtain p q where pq: "quotient_of \<bar>x\<bar> = (p, q)" by (cases "quotient_of \<bar>x\<bar>") auto
  then have q: "0 < q" by (rule quotient_of_denom_pos)
  from pq have x: "\<bar>x\<bar> = of_int p / of_int q" by (rule quotient_of_div)
  from assms have "0 < \<bar>x\<bar>" by simp
  with x q have p: "0 < p" by (simp add: zero_less_divide_iff)
  define k where "k = bitlen p - bitlen q"
  note bp = bitlen_powi_bounds [OF p] and bq = bitlen_powi_bounds [OF q]
  have qpos: "(0::rat) < of_int q" using q by simp
  have "\<bar>x\<bar> < 2 powi (bitlen p) / 2 powi (bitlen q - 1)"
  proof -
    have "of_int p / of_int q < (2::rat) powi (bitlen p) / of_int q"
      using bp(2) qpos by (simp add: divide_strict_right_mono)
    also have "\<dots> \<le> 2 powi (bitlen p) / 2 powi (bitlen q - 1)"
      using bq(1) qpos by (intro divide_left_mono) (simp_all add: zero_less_mult_iff)
    finally show ?thesis by (simp add: x)
  qed
  also have "(2::rat) powi (bitlen p) / 2 powi (bitlen q - 1) = 2 powi (k + 1)"
    by (simp add: k_def power_int_diff [symmetric] algebra_simps)
  finally have up: "\<bar>x\<bar> < 2 powi (k + 1)" .
  have "(2::rat) powi (k - 1) = 2 powi (bitlen p - 1) / 2 powi (bitlen q)"
    by (simp add: k_def power_int_diff [symmetric] algebra_simps)
  also have "\<dots> \<le> of_int p / 2 powi (bitlen q)"
    using bp(1) by (simp add: divide_right_mono)
  also have "\<dots> < of_int p / of_int q"
    using bq(2) p qpos by (intro divide_strict_left_mono) simp_all
  finally have low: "2 powi (k - 1) < \<bar>x\<bar>" by (simp add: x)
  show ?thesis
  proof (cases "2 powi k \<le> \<bar>x\<bar>")
    case True
    then have "ilog2 x = k" by (simp add: ilog2_def pq k_def)
    with True up show ?thesis by simp
  next
    case False
    then have "ilog2 x = k - 1" by (simp add: ilog2_def pq k_def)
    with False low show ?thesis by simp
  qed
qed

lemma ilog2_eqI:
  assumes "2 powi e \<le> \<bar>x\<bar>" and "\<bar>x\<bar> < 2 powi (e + 1)"
  shows "ilog2 x = e"
proof -
  have "\<not> (2::rat) powi e \<le> 0" by (simp add: not_le)
  with assms(1) have "x \<noteq> 0" by auto
  from ilog2_bounds [OF this] assms show ?thesis
    using pow2_exponent_unique by blast
qed

lemma py_round_eqI:
  assumes "of_int m - 1 / 2 < y" and "y < of_int m + 1 / 2"
  shows "py_round y = m"
proof (cases "of_int m \<le> y")
  case True
  with assms(2) have "\<lfloor>y\<rfloor> = m" by (intro floor_unique) simp_all
  with assms(2) show ?thesis by (simp add: py_round_def Let_def)
next
  case False
  with assms(1) have f: "\<lfloor>y\<rfloor> = m - 1" by (intro floor_unique) simp_all
  with assms(1) have "1 / 2 < y - of_int \<lfloor>y\<rfloor>" by simp
  with f show ?thesis by (simp add: py_round_def Let_def)
qed

lemma fl_eqI:
  assumes "- 1022 \<le> e" and "2 powi e \<le> \<bar>x\<bar>" and "\<bar>x\<bar> < 2 powi (e + 1)"
    and "of_int m - 1 / 2 < x / 2 powi (e - 52)" and "x / 2 powi (e - 52) < of_int m + 1 / 2"
  shows "fl x = of_int m * 2 powi (e - 52)"
proof -
  have "\<not> (2::rat) powi e \<le> 0" by (simp add: not_le)
  with assms(2) have nz: "x \<noteq> 0" by auto
  have e: "ilog2 x = e" using assms(2,3) by (rule ilog2_eqI)
  have r: "py_round (x / 2 powi (e - 52)) = m" using assms(4,5) by (rule py_round_eqI)
  show ?thesis using nz assms(1) by (simp add: fl_def e Let_def max_def r)
qed

lemma py_round_tieI:
  assumes "y = of_int f + 1 / 2"
  shows "py_round y = (if even f then f else f + 1)"
proof -
  have "\<lfloor>y\<rfloor> = f" using assms by (intro floor_unique) simp_all
  with assms show ?thesis by (simp add: py_round_def Let_def)
qed

lemma fl_tieI:
  assumes "- 1022 \<le> e" and "2 powi e \<le> \<bar>x\<bar>" and "\<bar>x\<bar> < 2 powi (e + 1)"
    and "x / 2 powi (e - 52) = of_int f + 1 / 2"
  shows "fl x = of_int (if even f then f else f + 1) * 2 powi (e - 52)"
proof -
  have "\<not> (2::rat) powi e \<le> 0" by (simp add: not_le)
  with assms(2) have nz: "x \<noteq> 0" by auto
  have e: "ilog2 x = e" using assms(2,3) by (rule ilog2_eqI)
  have r: "py_round (x / 2 powi (e - 52)) = (if even f then f else f + 1)"
    using assms(4) by (rule py_round_tieI)
  have m: "max e (- 1022) = e" using assms(1) by simp
  show ?thesis using nz by (simp add: fl_def e Let_def m r)
qed

lemma fl_zero: "fl 0 = 0"
  by (simp add: fl_def)

text \<open>
  The roundings that the evaluations below go through, each checked against its exponent
  and its neighbours.
\<close>

lemma fl_value_1: "fl (177 / 5) = (4982107087778611 / 140737488355328)"
  using fl_eqI [of "5" "(177 / 5)" "4982107087778611"] by simp

lemma fl_value_2: "fl (27 / 5) = (3039929748475085 / 562949953421312)"
  using fl_eqI [of "2" "(27 / 5)" "6079859496950170"] by simp

lemma fl_value_3: "fl (243 / 25) = (5471873547255153 / 562949953421312)"
  using fl_eqI [of "3" "(243 / 25)" "5471873547255153"] by simp

lemma fl_value_4: "fl (241 / 20) = (3391773469363405 / 281474976710656)"
  using fl_eqI [of "3" "(241 / 20)" "6783546938726810"] by simp

lemma fl_value_5: "fl (121 / 10) = (6811694436397875 / 562949953421312)"
  using fl_eqI [of "3" "(121 / 10)" "6811694436397875"] by simp

lemma fl_value_6: "fl (2502 / 5) = (4401564948312883 / 8796093022208)"
  using fl_eqI [of "8" "(2502 / 5)" "8803129896625766"] by simp

lemma fl_value_7: "fl 53 = 53"
  using fl_eqI [of "5" "53" "7459086882832384"] by simp

lemma fl_value_8: "fl (50 / 53) = (4248678893745751 / 4503599627370496)"
  using fl_eqI [of "- 1" "(50 / 53)" "8497357787491502"] by simp

lemma fl_value_9: "fl (225179981368524803 / 4503599627370496) = 50"
  using fl_eqI [of "5" "(225179981368524803 / 4503599627370496)" "7036874417766400"] by simp

lemma fl_value_10: "fl 50 = 50"
  using fl_eqI [of "5" "50" "7036874417766400"] by simp

lemma fl_value_11: "fl 46 = 46"
  using fl_eqI [of "5" "46" "6473924464345088"] by simp

lemma fl_value_12: "fl (49 / 46) = (4797312646546833 / 4503599627370496)"
  using fl_eqI [of "0" "(49 / 46)" "4797312646546833"] by simp

lemma fl_value_13: "fl 51 = 51"
  using fl_eqI [of "5" "51" "7177611906121728"] by simp

lemma fl_value_14: "fl 799 = 799"
  using fl_eqI [of "9" "799" "7028078324744192"] by simp

lemma fl_value_15: "fl (199 / 799) = (8973379983446595 / 36028797018963968)"
  using fl_eqI [of "- 3" "(199 / 799)" "8973379983446595"] by simp

lemma fl_value_16: "fl (7169730606773829405 / 36028797018963968) = 199"
  using fl_eqI [of "7" "(7169730606773829405 / 36028797018963968)" "7001690045677568"] by simp

lemma fl_value_17: "fl 500 = 500"
  using fl_eqI [of "8" "500" "8796093022208000"] by simp

lemma fl_value_18: "fl (13116733914716569 / 562949953421312) = (1639591739339571 / 70368744177664)"
  using fl_tieI [of "4" "(13116733914716569 / 562949953421312)" "6558366957358284"] by simp

lemma fl_value_19: "fl (3448068464705536 / 1639591739339571) = (147985771017405 / 70368744177664)"
  using fl_eqI [of "1" "(3448068464705536 / 1639591739339571)" "4735544672556960"] by simp

lemma fl_value_20: "fl (242636247699934539467446233255 / 4951760157141521099596496896) = 49"
  using fl_eqI [of "5" "(242636247699934539467446233255 / 4951760157141521099596496896)" "6896136929411072"] by simp

lemma fl_value_21: "fl 100 = 100"
  using fl_eqI [of "6" "100" "7036874417766400"] by simp

lemma fl_value_22: "fl 12 = 12"
  using fl_eqI [of "3" "12" "6755399441055744"] by simp

lemma fl_value_23: "fl (25 / 6) = (4691249611844267 / 1125899906842624)"
  using fl_eqI [of "2" "(25 / 6)" "4691249611844267"] by simp

lemma fl_value_24: "fl (3039929748475085 / 562949953421312) = (3039929748475085 / 562949953421312)"
  using fl_eqI [of "2" "(3039929748475085 / 562949953421312)" "6079859496950170"] by simp

lemma fl_value_25: "fl (14261069252567582718397749587695 / 633825300114114700748351602688) = (6333186975989761 / 281474976710656)"
  using fl_eqI [of "4" "(14261069252567582718397749587695 / 633825300114114700748351602688)" "6333186975989761"] by simp

lemma fl_value_26: "fl (6333186975989761 / 281474976710656) = (6333186975989761 / 281474976710656)"
  using fl_eqI [of "4" "(6333186975989761 / 281474976710656)" "6333186975989761"] by simp

lemma fl_value_27: "fl (5471873547255153 / 562949953421312) = (5471873547255153 / 562949953421312)"
  using fl_eqI [of "3" "(5471873547255153 / 562949953421312)" "5471873547255153"] by simp

lemma fl_value_28: "fl (25669924654621648893115949257851 / 633825300114114700748351602688) = (5699868278390785 / 140737488355328)"
  using fl_eqI [of "5" "(25669924654621648893115949257851 / 633825300114114700748351602688)" "5699868278390785"] by simp

lemma fl_value_29: "fl (5699868278390785 / 140737488355328) = (5699868278390785 / 140737488355328)"
  using fl_eqI [of "5" "(5699868278390785 / 140737488355328)" "5699868278390785"] by simp

lemma fl_value_30: "fl (71 / 2) = (71 / 2)"
  using fl_eqI [of "5" "(71 / 2)" "4996180836614144"] by simp

lemma fl_value_31: "fl (277 / 5) = (7796856854885171 / 140737488355328)"
  using fl_eqI [of "5" "(277 / 5)" "7796856854885171"] by simp

lemma fl_value_32: "fl (111 / 2) = (111 / 2)"
  using fl_eqI [of "5" "(111 / 2)" "7810930603720704"] by simp

lemma fl_value_33: "fl (752 / 5) = (5291729562160333 / 35184372088832)"
  using fl_eqI [of "7" "(752 / 5)" "5291729562160333"] by simp

lemma fl_value_34: "fl (301 / 2) = (301 / 2)"
  using fl_eqI [of "7" "(301 / 2)" "5295247999369216"] by simp

lemma fl_value_35: "fl (1252 / 5) = (8810166771043533 / 35184372088832)"
  using fl_eqI [of "7" "(1252 / 5)" "8810166771043533"] by simp

lemma fl_value_36: "fl (501 / 2) = (501 / 2)"
  using fl_eqI [of "7" "(501 / 2)" "8813685208252416"] by simp

lemma py_round_value_1: "py_round 50 = 50"
  using py_round_eqI [of "50" "50"] by simp

lemma py_round_value_2: "py_round 51 = 51"
  using py_round_eqI [of "51" "51"] by simp

lemma py_round_value_3: "py_round 500 = 500"
  using py_round_eqI [of "500" "500"] by simp

lemma py_round_value_4: "py_round 100 = 100"
  using py_round_eqI [of "100" "100"] by simp

lemma py_round_value_5: "py_round (6333186975989761 / 281474976710656) = 23"
  using py_round_eqI [of "23" "(6333186975989761 / 281474976710656)"] by simp

lemma py_round_value_6: "py_round (5699868278390785 / 140737488355328) = 41"
  using py_round_eqI [of "41" "(5699868278390785 / 140737488355328)"] by simp

lemma float_35_4: "fl 35.4 = (4982107087778611 / 140737488355328)"
  using fl_value_1 by simp

lemma float_5_4: "fl 5.4 = (3039929748475085 / 562949953421312)"
  using fl_value_2 by simp

lemma float_9_72: "fl 9.72 = (5471873547255153 / 562949953421312)"
  using fl_value_3 by simp

lemma float_12_05: "fl 12.05 = (3391773469363405 / 281474976710656)"
  using fl_value_4 by simp

lemma float_12_1: "fl 12.1 = (6811694436397875 / 562949953421312)"
  using fl_value_5 by simp

lemma float_500_4: "fl 500.4 = (4401564948312883 / 8796093022208)"
  using fl_value_6 by simp

subsection \<open>Sub-indices at given concentrations\<close>

lemma no2_at_53: "calculate_pollutant_aqi ''no2'' 53 = 50"
  by (simp add: calculate_pollutant_aqi_def aqi_breakpoints_def no2_breakpoints_def fl_zero
      fl_value_7 fl_value_8 fl_value_9 fl_value_10 py_round_value_1)

lemma no2_at_54: "calculate_pollutant_aqi ''no2'' 54 = 51"
  by (simp add: calculate_pollutant_aqi_def aqi_breakpoints_def no2_breakpoints_def fl_zero
      fl_value_11 fl_value_12 fl_value_13 py_round_value_2)

lemma no2_at_53_5: "calculate_pollutant_aqi ''no2'' (107 / 2) = 500"
  by (simp add: calculate_pollutant_aqi_def aqi_breakpoints_def no2_breakpoints_def fl_zero
      )

lemma no2_at_2049: "calculate_pollutant_aqi ''no2'' 2049 = 500"
  by (simp add: calculate_pollutant_aqi_def aqi_breakpoints_def no2_breakpoints_def fl_zero
      fl_value_14 fl_value_15 fl_value_16 fl_value_17 py_round_value_3)

lemma pm25_at_35_4: "calculate_pollutant_aqi ''pm25'' (4982107087778611 / 140737488355328) = 100"
  by (simp add: calculate_pollutant_aqi_def aqi_breakpoints_def pm25_breakpoints_def fl_zero
      fl_value_5 fl_value_1 fl_value_18 fl_value_19 fl_value_20 fl_value_21 py_round_value_4 fl_value_30 fl_value_31 fl_value_32 fl_value_33 fl_value_34 fl_value_35 fl_value_36 fl_value_6)

lemma pm25_at_5_4: "calculate_pollutant_aqi ''pm25'' (3039929748475085 / 562949953421312) = 23"
  by (simp add: calculate_pollutant_aqi_def aqi_breakpoints_def pm25_breakpoints_def fl_zero
      fl_value_22 fl_value_23 fl_value_24 fl_value_25 fl_value_26 py_round_value_5 fl_value_5 fl_value_1 fl_value_30 fl_value_31 fl_value_32 fl_value_33 fl_value_34 fl_value_35 fl_value_36 fl_value_6)

lemma pm25_at_9_72: "calculate_pollutant_aqi ''pm25'' (5471873547255153 / 562949953421312) = 41"
  by (simp add: calculate_pollutant_aqi_def aqi_breakpoints_def pm25_breakpoints_def fl_zero
      fl_value_22 fl_value_23 fl_value_27 fl_value_28 fl_value_29 py_round_value_6 fl_value_5 fl_value_1 fl_value_30 fl_value_31 fl_value_32 fl_value_33 fl_value_34 fl_value_35 fl_value_36 fl_value_6)

lemma pm25_at_12_05: "calculate_pollutant_aqi ''pm25'' (3391773469363405 / 281474976710656) = 500"
  by (simp add: calculate_pollutant_aqi_def aqi_breakpoints_def pm25_breakpoints_def fl_zero
      fl_value_5 fl_value_1 fl_value_30 fl_value_31 fl_value_32 fl_value_33 fl_value_34 fl_value_35 fl_value_36 fl_value_6)

text \<open>
  Where the exact interpolation is a tie between two integers, the float one need not be:
  PM2.5 at 5.4 interpolates to 22.500000000000004 and scores 23, and at 9.72 it scores 41.
\<close>

lemma interpolation_rounds_the_float:
  "calculate_pollutant_aqi ''pm25'' (fl 5.4) = 23
   \<and> calculate_pollutant_aqi ''pm25'' (fl 9.72) = 41"
  unfolding float_5_4 float_9_72 by (simp add: pm25_at_5_4 pm25_at_9_72)

subsection \<open>The end-to-end example at two bracket boundaries\<close>

text \<open>
  C3. NO2 at 53 scores exactly 50 and PM2.5 at 35.4 scores exactly 100; the overall EPA
  index of the two is 100; the weather (wind 5, temperature 20, humidity 50, pressure
  1013) leaves 100 unchanged; and \<^verbatim>\<open>calculate_aqi\<close> returns the scaled index 2 with these
  two sub-indices, whether NO2 comes in the TEMPO bundle or in the ground bundle.
\<close>

theorem calculate_aqi_boundary_example:
  "calculate_pollutant_aqi ''no2'' 53 = 50
   \<and> calculate_pollutant_aqi ''pm25'' (fl 35.4) = 100
   \<and> overall [(''no2'', 50), (''pm25'', 100)] = 100
   \<and> apply_weather_corrections 100
        [(''wind_speed'', VNum 5), (''temperature'', VNum 20), (''humidity'', VNum 50),
         (''pressure'', VNum 1013)] = Inr 100
   \<and> calculate_aqi_try [(''no2'', VNum 53)] [(''pm25'', VNum (fl 35.4))]
        [(''wind_speed'', VNum 5), (''temperature'', VNum 20), (''humidity'', VNum 50),
         (''pressure'', VNum 1013)] =
      Inr \<lparr>aqi = 2, no2 = VNum 53, o3 = VNone, pm25 = VNum (fl 35.4), pm10 = VNone,
           sources = [VStr ''mock_data''],
           individual_aqi = [(''no2'', 50), (''pm25'', 100)], weather_factor = 0.5\<rparr>
   \<and> calculate_aqi [(''no2'', VNum 53)] [(''pm25'', VNum (fl 35.4))]
        [(''wind_speed'', VNum 5), (''temperature'', VNum 20), (''humidity'', VNum 50),
         (''pressure'', VNum 1013)] =
      \<lparr>aqi = 2, no2 = VNum 53, o3 = VNone, pm25 = VNum (fl 35.4), pm10 = VNone,
       sources = [VStr ''mock_data''],
       individual_aqi = [(''no2'', 50), (''pm25'', 100)], weather_factor = 0.5\<rparr>
   \<and> calculate_aqi_try [] [(''no2'', VNum 53), (''pm25'', VNum (fl 35.4))]
        [(''wind_speed'', VNum 5), (''temperature'', VNum 20), (''humidity'', VNum 50),
         (''pressure'', VNum 1013)] =
      Inr \<lparr>aqi = 2, no2 = VNum 53, o3 = VNone, pm25 = VNum (fl 35.4), pm10 = VNone,
           sources = [VStr ''mock_data''],
           individual_aqi = [(''pm25'', 100), (''no2'', 50)], weather_factor = 0.5\<rparr>
   \<and> calculate_aqi [] [(''no2'', VNum 53), (''pm25'', VNum (fl 35.4))]
        [(''wind_speed'', VNum 5), (''temperature'', VNum 20), (''humidity'', VNum 50),
         (''pressure'', VNum 1013)] =
      \<lparr>aqi = 2, no2 = VNum 53, o3 = VNone, pm25 = VNum (fl 35.4), pm10 = VNone,
       sources = [VStr ''mock_data''],
       individual_aqi = [(''pm25'', 100), (''no2'', 50)], weather_factor = 0.5\<rparr>"
proof -
  let ?c = "4982107087778611 / 140737488355328 :: rat"
  let ?w = "[(''wind_speed'', VNum 5), (''temperature'', VNum 20), (''humidity'', VNum 50),
             (''pressure'', VNum 1013)]"
  have w: "apply_weather_corrections 100 ?w = Inr 100"
    by (simp add: apply_weather_corrections_def get_default_def)
  have f: "calculate_weather_factor ?w = Inr 0.5"
    by (simp add: calculate_weather_factor_def get_default_def)
  have o1: "overall [(''no2'', 50), (''pm25'', 100)] = 100"
    by (simp add: overall_def)
  have o2: "overall [(''pm25'', 100), (''no2'', 50)] = 100"
    by (simp add: overall_def)
  have e1: "extract_pollutants [(''no2'', VNum 53)] [(''pm25'', VNum ?c)] =
      [(''no2'', VNum 53), (''o3'', VNone), (''hcho'', VNone), (''pm25'', VNum ?c),
       (''pm10'', VNone)]"
    by (simp add: extract_both get_Cons get_Nil)
  have e2: "extract_pollutants [] [(''no2'', VNum 53), (''pm25'', VNum ?c)] =
      [(''pm25'', VNum ?c), (''pm10'', VNone), (''no2'', VNum 53), (''o3'', VNone)]"
    by (simp add: extract_ground_only get_Cons get_Nil)
  have s1: "get_data_sources [(''no2'', VNum 53)] [(''pm25'', VNum ?c)] = [VStr ''mock_data'']"
    by (simp add: get_data_sources_def get_Cons get_Nil)
  have s2: "get_data_sources [] [(''no2'', VNum 53), (''pm25'', VNum ?c)] = [VStr ''mock_data'']"
    by (simp add: get_data_sources_def get_Cons get_Nil)
  have t1: "calculate_aqi_try [(''no2'', VNum 53)] [(''pm25'', VNum ?c)] ?w =
      Inr \<lparr>aqi = 2, no2 = VNum 53, o3 = VNone, pm25 = VNum ?c, pm10 = VNone,
           sources = [VStr ''mock_data''],
           individual_aqi = [(''no2'', 50), (''pm25'', 100)], weather_factor = 0.5\<rparr>"
    unfolding calculate_aqi_try_def e1 s1
    by (simp add: Let_def no2_at_53 pm25_at_35_4 o1 w f scale_aqi_to_5_def get_Cons get_Nil)
  have t2: "calculate_aqi_try [] [(''no2'', VNum 53), (''pm25'', VNum ?c)] ?w =
      Inr \<lparr>aqi = 2, no2 = VNum 53, o3 = VNone, pm25 = VNum ?c, pm10 = VNone,
           sources = [VStr ''mock_data''],
           individual_aqi = [(''pm25'', 100), (''no2'', 50)], weather_factor = 0.5\<rparr>"
    unfolding calculate_aqi_try_def e2 s2
    by (simp add: Let_def no2_at_53 pm25_at_35_4 o2 w f scale_aqi_to_5_def get_Cons get_Nil)
  have c1: "calculate_aqi [(''no2'', VNum 53)] [(''pm25'', VNum ?c)] ?w =
      \<lparr>aqi = 2, no2 = VNum 53, o3 = VNone, pm25 = VNum ?c, pm10 = VNone,
       sources = [VStr ''mock_data''],
       individual_aqi = [(''no2'', 50), (''pm25'', 100)], weather_factor = 0.5\<rparr>"
    unfolding calculate_aqi_def t1 by simp
  have c2: "calculate_aqi [] [(''no2'', VNum 53), (''pm25'', VNum ?c)] ?w =
      \<lparr>aqi = 2, no2 = VNum 53, o3 = VNone, pm25 = VNum ?c, pm10 = VNone,
       sources = [VStr ''mock_data''],
       individual_aqi = [(''pm25'', 100), (''no2'', 50)], weather_factor = 0.5\<rparr>"
    unfolding calculate_aqi_def t2 by simp
  show ?thesis
    unfolding float_35_4
    by (simp only: no2_at_53 pm25_at_35_4 o1 w t1 t2 c1 c2 simp_thms)
qed

subsection \<open>Concentrations between two brackets\<close>

text \<open>
  The top bound of the NO2 table, 2049, scores 500 by interpolation.
\<close>

lemma no2_at_top_bound: "calculate_pollutant_aqi ''no2'' 2049 = 500"
  by (rule no2_at_2049)

text \<open>
  C2, at a concentration between two brackets. The tables leave a gap between the upper
  bound of a bracket and the lower bound of the next one. NO2 at 53 scores 50 and NO2 at
  54 scores 51, but NO2 at 53.5, far below the top bound 2049, is in no bracket and
  scores 500. In the same way PM2.5 at 12.05, between 12 and 12.1, scores 500.
\<close>

theorem calculate_pollutant_aqi_between_brackets:
  "calculate_pollutant_aqi ''no2'' 53 = 50
   \<and> calculate_pollutant_aqi ''no2'' 54 = 51
   \<and> (53::rat) < 53.5 \<and> (53.5::rat) < 54 \<and> (53.5::rat) \<le> 2049
   \<and> calculate_pollutant_aqi ''no2'' 53.5 = 500
   \<and> 12 < fl 12.05 \<and> fl 12.05 < fl 12.1 \<and> fl 12.05 \<le> fl 500.4
   \<and> calculate_pollutant_aqi ''pm25'' (fl 12.05) = 500"
  unfolding float_12_05 float_12_1 float_500_4
  by (simp add: no2_at_53 no2_at_54 no2_at_53_5 pm25_at_12_05)

section \<open>Properties of the forecast generator\<close>

subsection \<open>The stochastic term\<close>

lemma str_small: "str 1 = ''1''" "str 2 = ''2''" "str 7 = ''7''" "str 10 = ''10''"
  by (simp_all add: str_def)

lemma rv_range: "random_variation hash d \<in> {- 1, 0, 1}"
proof -
  have "0 \<le> hash (str d) mod 3" "hash (str d) mod 3 < 3" by simp_all
  then show ?thesis unfolding random_variation_def by auto
qed

text \<open>
  C9 (as the code has it). The stochastic term is one of \<open>-1\<close>, 0, 1 for every hash
  function and every day offset, and it depends on the interpreter's hash only through the
  hash of the day offset's numeral: within one process, or between two processes whose
  hashes agree on that numeral, the same day offset gives the same term.
\<close>

theorem random_variation_range_and_dependence:
  "random_variation hash days_ahead \<in> {- 1, 0, 1}
   \<and> (hash (str days_ahead) = hash' (str days_ahead) \<longrightarrow>
        random_variation hash days_ahead = random_variation hash' days_ahead)"
  using rv_range [of hash days_ahead] by (simp add: random_variation_def)

text \<open>
  Two runs of the interpreter, with hash seeds 0 and 1, give the day offset 2 the
  stochastic terms 0 and 1.
\<close>

theorem random_variation_differs_between_runs:
  "random_variation hash_seed0 2 = 0 \<and> random_variation hash_seed1 2 = 1"
  by (simp add: random_variation_def str_def hash_seed0_def hash_seed1_def
      hash_table_seed0_def hash_table_seed1_def)

theorem random_variation_range_and_dependence_witness:
  "hash_seed0 (str 2) = hash_seed0 (str 2)
   \<and> random_variation hash_seed0 2 \<in> {- 1, 0, 1}
   \<and> random_variation hash_seed0 2 = random_variation hash_seed0 2"
  using random_variation_range_and_dependence [of hash_seed0 2 hash_seed0] by simp

subsection \<open>Confidence\<close>

lemma confidence_closed_form:
  "1 \<le> d \<Longrightarrow> d \<le> 7 \<Longrightarrow> calculate_confidence d = 1 - of_int d / 10"
proof -
  assume "1 \<le> d" "d \<le> 7"
  then have r: "(1::rat) \<le> of_int d" "(of_int d :: rat) \<le> 7" by simp_all
  have e: "(0.9::rat) - of_int (d - 1) * 0.1 = 1 - of_int d / 10" by (simp add: field_simps)
  have "(0.3::rat) \<le> 1 - of_int d / 10" "1 - of_int d / 10 \<le> (1.0::rat)" using r by simp_all
  then show ?thesis
    unfolding calculate_confidence_def Let_def e by (simp add: max_def min_def)
qed

text \<open>
  C6. For every day offset \<open>d\<close> from 1 to 7 the confidence is
  \<open>max 0.3 (min 1.0 (0.9 - (d - 1) * 0.1))\<close> and lies in [0.3, 1.0]; from each day to the
  next it strictly decreases; day 1 has 0.9 and day 7 has 0.3.
\<close>

theorem calculate_confidence_sequence:
  "(\<forall>d \<in> {1..7}. calculate_confidence d = max 0.3 (min 1.0 (0.9 - (of_int d - 1) * 0.1))
        \<and> 0.3 \<le> calculate_confidence d \<and> calculate_confidence d \<le> 1.0)
   \<and> (\<forall>d \<in> {1..6}. calculate_confidence (d + 1) < calculate_confidence d)
   \<and> calculate_confidence 1 = 0.9 \<and> calculate_confidence 7 = 0.3"
proof (intro conjI ballI)
  fix d :: int assume "d \<in> {1..7}"
  then have d: "1 \<le> d" "d \<le> 7" by simp_all
  then have r: "(1::rat) \<le> of_int d" "(of_int d :: rat) \<le> 7" by simp_all
  show "calculate_confidence d = max 0.3 (min 1.0 (0.9 - (of_int d - 1) * 0.1))"
    by (simp add: calculate_confidence_def Let_def)
  show "0.3 \<le> calculate_confidence d" "calculate_confidence d \<le> 1.0"
    using r by (simp_all add: confidence_closed_form [OF d])
next
  fix d :: int assume "d \<in> {1..6}"
  then have "1 \<le> d" "d \<le> 7" "1 \<le> d + 1" "d + 1 \<le> 7" by simp_all
  then show "calculate_confidence (d + 1) < calculate_confidence d"
    by (simp add: confidence_closed_form)
next
  show "calculate_confidence 1 = 0.9" by (simp add: confidence_closed_form)
  show "calculate_confidence 7 = 0.3" by (simp add: confidence_closed_form)
qed

theorem calculate_confidence_sequence_witness:
  "(3::int) \<in> {1..7} \<and> (3::int) \<in> {1..6}
   \<and> calculate_confidence 3 = 0.7 \<and> calculate_confidence 4 < calculate_confidence 3"
proof -
  have a: "(3::int) \<in> {1..7}" and b: "(3::int) \<in> {1..6}" by simp_all
  from calculate_confidence_sequence a have "calculate_confidence 3 = max 0.3 (min 1.0 (0.9 - (of_int 3 - 1) * 0.1))"
    by blast
  then have "calculate_confidence 3 = 0.7" by simp
  moreover from calculate_confidence_sequence b have "calculate_confidence (3 + 1) < calculate_confidence 3" by blast
  ultimately show ?thesis using a b by simp
qed


subsection \<open>Pollutant projections\<close>

lemma gpf_example:
  "generate_pollutant_forecasts [(''pm25'', VNum 20)] [(''wind_speed'', VNum 35)] 1 =
     Inr [(''no2'', 10), (''o3'', 60), (''pm25'', - 4)]"
  by (simp add: generate_pollutant_forecasts_def get_default_def)

text \<open>
  C10. The projected levels are not bounded below by zero: there are a baseline with a
  positive PM2.5 level and a weather forecast with a wind speed above 30 for which
  \<^verbatim>\<open>_generate_pollutant_forecasts\<close> returns a strictly negative PM2.5 level (baseline 20
  and wind speed 35 give \<open>-4\<close>).
\<close>

theorem generate_pollutant_forecasts_negative_pm25:
  "\<exists>current_data weather_forecast days_ahead base wind forecasts level.
      get current_data ''pm25'' = VNum base \<and> 0 < base
    \<and> get weather_forecast ''wind_speed'' = VNum wind \<and> 30 < wind
    \<and> generate_pollutant_forecasts current_data weather_forecast days_ahead = Inr forecasts
    \<and> map_of forecasts ''pm25'' = Some level \<and> level < 0"
proof -
  have "get [(''pm25'', VNum 20)] ''pm25'' = VNum 20 \<and> (0::rat) < 20
    \<and> get [(''wind_speed'', VNum 35)] ''wind_speed'' = VNum 35 \<and> (30::rat) < 35
    \<and> generate_pollutant_forecasts [(''pm25'', VNum 20)] [(''wind_speed'', VNum 35)] 1 =
          Inr [(''no2'', 10), (''o3'', 60), (''pm25'', - 4)]
    \<and> map_of [(''no2'', 10), (''o3'', 60), (''pm25'', - 4 :: rat)] ''pm25'' = Some (- 4)
    \<and> (- 4 :: rat) < 0"
    by (simp add: gpf_example get_Cons)
  then show ?thesis by blast
qed

subsection \<open>The dates of the seven days\<close>

lemma weather_impact_synth:
  "\<exists>x. calculate_weather_impact (get_weather_forecast hash i) = Inr x"
  by (simp add: calculate_weather_impact_def get_weather_forecast_def get_default_def Let_def
      split del: if_split)

lemma forecast_aqi_clock:
  "snd (calculate_forecast_aqi hash clock t cd (get_weather_forecast hash i) i) = Suc t"
proof -
  obtain x where "calculate_weather_impact (get_weather_forecast hash i) = Inr x"
    using weather_impact_synth by blast
  then show ?thesis
    by (simp add: calculate_forecast_aqi_def calculate_seasonal_factor_def Let_def
        split del: if_split)
qed

lemma forecast_aqi_Inr:
  assumes "fst (calculate_forecast_aqi hash clock t cd wfc i) = Inr a"
  shows "\<exists>b. num_of (get_default cd ''aqi'' (VNum 3)) = Inr b"
proof (cases "num_of (get_default cd ''aqi'' (VNum 3))")
  case (Inl e)
  with assms show ?thesis
    by (cases "calculate_weather_impact wfc")
       (simp_all add: calculate_forecast_aqi_def calculate_seasonal_factor_def Let_def
          split del: if_split)
next
  case (Inr b)
  then show ?thesis by blast
qed

lemma generate_day_forecast_clock:
  "snd (generate_day_forecast hash clock t i cd) = Suc (Suc t)
   \<and> date (fst (generate_day_forecast hash clock t i cd)) = clock (Suc t) + i"
proof -
  obtain r where R: "calculate_forecast_aqi hash clock t cd (get_weather_forecast hash i) i
      = (r, Suc t)"
    using forecast_aqi_clock [of hash clock t cd i] by (metis prod.collapse)
  show ?thesis
  proof (cases r)
    case (Inl e)
    with R show ?thesis
      by (simp add: generate_day_forecast_def generate_day_forecast_try_def
          get_default_day_forecast_def)
  next
    case a: (Inr a)
    show ?thesis
    proof (cases "generate_pollutant_forecasts cd (get_weather_forecast hash i) i")
      case (Inl e)
      with R a show ?thesis
        by (simp add: generate_day_forecast_def generate_day_forecast_try_def
            get_default_day_forecast_def)
    next
      case (Inr pf)
      from R a have "fst (calculate_forecast_aqi hash clock t cd (get_weather_forecast hash i) i)
          = Inr a" by simp
      then obtain b where "num_of (get_default cd ''aqi'' (VNum 3)) = Inr b"
        using forecast_aqi_Inr by blast
      then obtain tr where "calculate_trend cd a = Inr tr"
        by (simp add: calculate_trend_def)
      with R a Inr show ?thesis
        by (simp add: generate_day_forecast_def generate_day_forecast_try_def Let_def)
    qed
  qed
qed

lemma forecast_loop_dates_Cons:
  "map date (fst (forecast_loop hash clock t cd (i # days))) =
     (clock (Suc t) + i) # map date (fst (forecast_loop hash clock (Suc (Suc t)) cd days))"
proof -
  obtain day where D: "generate_day_forecast hash clock t i cd = (day, Suc (Suc t))"
    and dd: "date day = clock (Suc t) + i"
    using generate_day_forecast_clock [of hash clock t i cd] by (metis prod.collapse)
  obtain rest t2 where L: "forecast_loop hash clock (Suc (Suc t)) cd days = (rest, t2)"
    by (cases "forecast_loop hash clock (Suc (Suc t)) cd days") auto
  have "forecast_loop hash clock t cd (i # days) = (day # rest, t2)"
    by (simp add: D L)
  then show ?thesis by (simp add: L dd)
qed

lemma default_loop_dates_Cons:
  "map date (fst (default_loop clock t (i # days))) =
     (clock t + i) # map date (fst (default_loop clock (Suc t) days))"
proof -
  obtain rest t2 where L: "default_loop clock (Suc t) days = (rest, t2)"
    by (cases "default_loop clock (Suc t) days") auto
  have "default_loop clock t (i # days)
      = (fst (get_default_day_forecast clock t i) # rest, t2)"
    by (simp add: get_default_day_forecast_def L)
  then show ?thesis by (simp add: L get_default_day_forecast_def)
qed

lemma generate_forecast_fst:
  "fst (generate_forecast hash clock t cd) =
     fst (forecast_loop hash clock (if cd = [] then Suc t else t)
           (if cd = [] then fst (get_current_data clock t) else cd) [1, 2, 3, 4, 5, 6, 7])"
  by (simp add: generate_forecast_def generate_forecast_try_def get_current_data_def
      split: prod.splits)

lemma generate_forecast_dates:
  "map date (fst (generate_forecast hash clock t cd)) =
     (let t0 = (if cd = [] then Suc t else t) in
      [clock (t0 + 1) + 1, clock (t0 + 3) + 2, clock (t0 + 5) + 3, clock (t0 + 7) + 4,
       clock (t0 + 9) + 5, clock (t0 + 11) + 6, clock (t0 + 13) + 7])"
  unfolding generate_forecast_fst Let_def forecast_loop_dates_Cons
  by (simp add: eval_nat_numeral)

lemma get_default_forecast_dates:
  "map date (fst (get_default_forecast clock t)) =
     [clock t + 1, clock (t + 1) + 2, clock (t + 2) + 3, clock (t + 3) + 4,
      clock (t + 4) + 5, clock (t + 5) + 6, clock (t + 6) + 7]"
  unfolding get_default_forecast_def default_loop_dates_Cons
  by (simp add: eval_nat_numeral)

lemma forecast_dates_same_day:
  assumes "\<And>n. clock n = today"
  shows "map date (fst (generate_forecast hash clock t cd)) =
           [today + 1, today + 2, today + 3, today + 4, today + 5, today + 6, today + 7]"
    and "map date (fst (get_default_forecast clock t)) =
           [today + 1, today + 2, today + 3, today + 4, today + 5, today + 6, today + 7]"
  by (simp_all add: generate_forecast_dates get_default_forecast_dates assms Let_def)

text \<open>
  C5, on a request that crosses midnight. The clock is read again for every day of the
  forecast. When the first readings of a request fall on 4 November and the later ones on
  5 November, the first entry is dated 5 November and the second 7 November: 6 November
  is skipped, on the normal path and on the default path alike. On a clock that stays on
  one day the seven dates are the seven days after it.
\<close>

theorem generate_forecast_dates_over_midnight:
  "map date (fst (generate_forecast hash clock_over_midnight 0 [])) =
     [739925, 739927, 739928, 739929, 739930, 739931, 739932]
   \<and> map date (fst (get_default_forecast clock_over_midnight 2)) =
     [739925, 739927, 739928, 739929, 739930, 739931, 739932]
   \<and> map date (fst (generate_forecast hash clock_same_day 0 [])) =
     [739925, 739926, 739927, 739928, 739929, 739930, 739931]"
  by (simp add: generate_forecast_dates get_default_forecast_dates clock_over_midnight_def
      clock_same_day_def)


end
